theory Spec2Isabelle
  imports Main "HOL-Library.Char_ord" "HOL-Library.List_Lexorder"
begin

section \<open>Errors and API objects\<close>

text \<open>
  A Go \<^verbatim>\<open>error\<close> value. \<open>NotFound\<close>, \<open>Forbidden\<close>, \<open>Unreachable\<close> and \<open>Other\<close> are
  what an API server call or the construction of a client can return; \<open>New\<close> is
  \<^verbatim>\<open>errors.New(msg)\<close> and \<open>Wrapf err format args\<close> is \<^verbatim>\<open>errors.Wrapf(err, format, args...)\<close>
  (the format string and its arguments are kept apart, nothing is formatted).
  A result \<^verbatim>\<open>(v, err)\<close> of a Go call is a value of \<open>error + 'a\<close>: \<open>Inl err\<close> when
  \<^verbatim>\<open>err != nil\<close> (the value is then \<^verbatim>\<open>nil\<close>), \<open>Inr v\<close> otherwise. A result that is only an
  \<^verbatim>\<open>error\<close> is an \<open>error option\<close>, \<open>None\<close> being \<^verbatim>\<open>nil\<close>.
\<close>

datatype error =
    NotFound
  | Forbidden
  | Unreachable
  | Other string
  | New string
  | Wrapf error string "string list"

text \<open>\<^verbatim>\<open>apierrors.IsNotFound(err)\<close>: false on \<^verbatim>\<open>nil\<close> and on every error that is not
  the API status NotFound itself.\<close>

fun IsNotFound :: "error option \<Rightarrow> bool" where
  "IsNotFound (Some NotFound) = True"
| "IsNotFound _ = False"

record namespace =
  ns_Name :: string
  ns_UID :: string

record KubefedCluster =
  fc_Namespace :: string
  fc_Name :: string
  fc_SecretRef_Name :: string

datatype rest_Config = rest_Config string

datatype Clientset = Clientset string

datatype generic_Client = generic_Client string

section \<open>The API servers\<close>

text \<open>
  Every request the code sends, with the client it is sent through. Namespaced
  requests carry the namespace first, then the object's name.
\<close>

datatype request =
    ClusterRoleBindings_Delete Clientset string
  | ClusterRoles_Delete Clientset string
  | RoleBindings_Delete Clientset string string
  | Roles_Delete Clientset string string
  | ServiceAccounts_Delete Clientset string string
  | Namespaces_Get Clientset string
  | Namespaces_Delete Clientset string
  | Secrets_Delete Clientset string string
  | KubefedCluster_Get generic_Client string string
  | KubefedCluster_Delete generic_Client string string

text \<open>
  The servers behind the clients are not part of the program: they are a parameter.
  A server answers a request as a function of the requests sent so far (the trace) and
  of the request itself, which covers every deterministic behaviour of the two
  clusters, whether they are distinct or the same cluster. The program's state is the
  trace: a call returns the server's answer and appends the request.
\<close>

record api =
  on_Delete :: "request list \<Rightarrow> request \<Rightarrow> error option"
  on_Namespaces_Get :: "request list \<Rightarrow> request \<Rightarrow> error + namespace"
  on_KubefedCluster_Get :: "request list \<Rightarrow> request \<Rightarrow> error + KubefedCluster"

definition Delete :: "api \<Rightarrow> request \<Rightarrow> request list \<Rightarrow> error option \<times> request list" where
  "Delete srv r tr = (on_Delete srv tr r, tr @ [r])"

definition Get_Namespace :: "api \<Rightarrow> request \<Rightarrow> request list \<Rightarrow> (error + namespace) \<times> request list" where
  "Get_Namespace srv r tr = (on_Namespaces_Get srv tr r, tr @ [r])"

definition Get_KubefedCluster ::
  "api \<Rightarrow> request \<Rightarrow> request list \<Rightarrow> (error + KubefedCluster) \<times> request list" where
  "Get_KubefedCluster srv r tr = (on_KubefedCluster_Get srv tr r, tr @ [r])"

text \<open>
  The functions of the packages \<^verbatim>\<open>util\<close>, \<^verbatim>\<open>controllerutil\<close> and \<^verbatim>\<open>genericclient\<close> that the
  unjoin code calls and whose bodies are not among the sources: they are parameters.
\<close>

record util =
  HostClientset :: "rest_Config \<Rightarrow> error + Clientset"
  ClusterClientset :: "rest_Config \<Rightarrow> error + Clientset"
  genericclient_New :: "rest_Config \<Rightarrow> error + generic_Client"
  ClusterServiceAccountName :: "string \<Rightarrow> string \<Rightarrow> string"
  RoleName :: "string \<Rightarrow> string"
  HealthCheckRoleName :: "string \<Rightarrow> string \<Rightarrow> string"
  IsPrimaryCluster :: "namespace \<Rightarrow> namespace \<Rightarrow> bool"

section \<open>Unjoin: teardown on the member cluster\<close>

definition deleteServiceAccount ::
  "api \<Rightarrow> Clientset \<Rightarrow> string \<Rightarrow> string \<Rightarrow> bool \<Rightarrow> request list \<Rightarrow> error option \<times> request list" where
  "deleteServiceAccount srv clusterClientset saName namespace dryRun tr =
     (if dryRun then (None, tr)
      else Delete srv (ServiceAccounts_Delete clusterClientset namespace saName) tr)"

text \<open>The loop over \<^verbatim>\<open>[]string{roleName, healthCheckRoleName}\<close>, with the flag
  \<^verbatim>\<open>deletionSucceeded\<close> it updates.\<close>

fun clusterRoleLoop ::
  "api \<Rightarrow> Clientset \<Rightarrow> string list \<Rightarrow> bool \<Rightarrow> request list \<Rightarrow> bool \<times> request list" where
  "clusterRoleLoop srv clusterClientset [] deletionSucceeded tr = (deletionSucceeded, tr)"
| "clusterRoleLoop srv clusterClientset (name # names) deletionSucceeded tr =
     (let (err, tr) = Delete srv (ClusterRoleBindings_Delete clusterClientset name) tr;
          deletionSucceeded = (if err \<noteq> None \<and> \<not> IsNotFound err then False else deletionSucceeded);
          (err, tr) = Delete srv (ClusterRoles_Delete clusterClientset name) tr;
          deletionSucceeded = (if err \<noteq> None \<and> \<not> IsNotFound err then False else deletionSucceeded)
      in clusterRoleLoop srv clusterClientset names deletionSucceeded tr)"

definition deleteClusterRoleAndBinding ::
  "api \<Rightarrow> util \<Rightarrow> Clientset \<Rightarrow> string \<Rightarrow> string \<Rightarrow> bool \<Rightarrow> request list \<Rightarrow> bool \<times> request list" where
  "deleteClusterRoleAndBinding srv u clusterClientset saName namespace dryRun tr =
     (let deletionSucceeded = True in
      if dryRun then (deletionSucceeded, tr)
      else
        let roleName = RoleName u saName;
            healthCheckRoleName = HealthCheckRoleName u saName namespace;
            (deletionSucceeded, tr) =
              clusterRoleLoop srv clusterClientset [roleName, healthCheckRoleName] deletionSucceeded tr;
            (err, tr) = Delete srv (RoleBindings_Delete clusterClientset namespace roleName) tr;
            deletionSucceeded = (if err \<noteq> None \<and> \<not> IsNotFound err then False else deletionSucceeded);
            (err, tr) = Delete srv (Roles_Delete clusterClientset namespace roleName) tr;
            deletionSucceeded = (if err \<noteq> None \<and> \<not> IsNotFound err then False else deletionSucceeded)
        in (deletionSucceeded, tr))"

definition deleteRBACResources ::
  "api \<Rightarrow> util \<Rightarrow> Clientset \<Rightarrow> string \<Rightarrow> string \<Rightarrow> string \<Rightarrow> bool \<Rightarrow> request list
     \<Rightarrow> bool \<times> request list" where
  "deleteRBACResources srv u unjoiningClusterClientset namespace unjoiningClusterName hostClusterName dryRun tr =
     (let saName = ClusterServiceAccountName u unjoiningClusterName hostClusterName;
          (deletionSucceeded, tr) =
            deleteClusterRoleAndBinding srv u unjoiningClusterClientset saName namespace dryRun tr;
          (err, tr) = deleteServiceAccount srv unjoiningClusterClientset saName namespace dryRun tr;
          deletionSucceeded = (if err \<noteq> None then False else deletionSucceeded)
      in (deletionSucceeded, tr))"

definition deleteFedNSFromUnjoinCluster ::
  "api \<Rightarrow> util \<Rightarrow> Clientset \<Rightarrow> Clientset \<Rightarrow> string \<Rightarrow> string \<Rightarrow> bool \<Rightarrow> request list
     \<Rightarrow> error option \<times> request list" where
  "deleteFedNSFromUnjoinCluster srv u hostClientset unjoiningClusterClientset kubefedNamespace
       unjoiningClusterName dryRun tr =
     (if dryRun then (None, tr)
      else
        case Get_Namespace srv (Namespaces_Get hostClientset kubefedNamespace) tr of
          (Inl err, tr) \<Rightarrow>
            (Some (Wrapf err ''Error retrieving namespace %q from host cluster'' [kubefedNamespace]), tr)
        | (Inr hostClusterNamespace, tr) \<Rightarrow>
           (case Get_Namespace srv (Namespaces_Get unjoiningClusterClientset kubefedNamespace) tr of
              (Inl err, tr) \<Rightarrow>
                (Some (Wrapf err ''Error retrieving namespace %q from unjoining cluster %q''
                         [kubefedNamespace, unjoiningClusterName]), tr)
            | (Inr unjoiningClusterNamespace, tr) \<Rightarrow>
                if IsPrimaryCluster u hostClusterNamespace unjoiningClusterNamespace then (None, tr)
                else
                  let (err, tr) = Delete srv (Namespaces_Delete unjoiningClusterClientset kubefedNamespace) tr
                  in if IsNotFound err then (None, tr)
                     else (case err of
                             Some e \<Rightarrow>
                               (Some (Wrapf e ''Could not delete kubefed namespace %q from unjoining cluster %q''
                                        [kubefedNamespace, unjoiningClusterName]), tr)
                           | None \<Rightarrow> (None, tr))))"

section \<open>Unjoin: deregistration on the host cluster\<close>

definition deleteKubefedClusterAndSecret ::
  "api \<Rightarrow> Clientset \<Rightarrow> generic_Client \<Rightarrow> string \<Rightarrow> string \<Rightarrow> bool \<Rightarrow> request list \<Rightarrow> request list" where
  "deleteKubefedClusterAndSecret srv hostClientset client kubefedNamespace unjoiningClusterName dryRun tr =
     (if dryRun then tr
      else
        case Get_KubefedCluster srv (KubefedCluster_Get client kubefedNamespace unjoiningClusterName) tr of
          (Inl err, tr) \<Rightarrow> tr
        | (Inr fedCluster, tr) \<Rightarrow>
            let (err, tr) = Delete srv (Secrets_Delete hostClientset kubefedNamespace (fc_SecretRef_Name fedCluster)) tr;
                (err, tr) = Delete srv (KubefedCluster_Delete client (fc_Namespace fedCluster) (fc_Name fedCluster)) tr
            in tr)"

section \<open>Unjoin: the orchestration\<close>

text \<open>
  \<open>clusterConfig\<close> is a pointer the code tests against \<^verbatim>\<open>nil\<close>: an option. The member
  clientset is \<^verbatim>\<open>nil\<close> (\<open>None\<close>) when there is no configuration, and when building it
  failed and \<open>forceDeletion\<close> let the function go on.
\<close>

definition UnjoinCluster ::
  "api \<Rightarrow> util \<Rightarrow> rest_Config \<Rightarrow> rest_Config option \<Rightarrow> string \<Rightarrow> string \<Rightarrow> string \<Rightarrow> string \<Rightarrow> string
     \<Rightarrow> bool \<Rightarrow> bool \<Rightarrow> request list \<Rightarrow> error option \<times> request list" where
  "UnjoinCluster srv u hostConfig clusterConfig kubefedNamespace hostClusterName hostClusterContext
       unjoiningClusterContext unjoiningClusterName forceDeletion dryRun tr =
     (case HostClientset u hostConfig of
        Inl err \<Rightarrow> (Some err, tr)
      | Inr hostClientset \<Rightarrow>
         (case (case clusterConfig of
                  None \<Rightarrow> Inr None
                | Some cfg \<Rightarrow>
                   (case ClusterClientset u cfg of
                      Inl err \<Rightarrow> if \<not> forceDeletion then Inl err else Inr None
                    | Inr cs \<Rightarrow> Inr (Some cs))) of
            Inl err \<Rightarrow> (Some err, tr)
          | Inr clusterClientset \<Rightarrow>
             (case genericclient_New u hostConfig of
                Inl err \<Rightarrow> (Some err, tr)
              | Inr client \<Rightarrow>
                  let (deletionSucceeded, tr) =
                        (case clusterClientset of
                           None \<Rightarrow> (False, tr)
                         | Some cs \<Rightarrow>
                             let (deletionSucceeded, tr) =
                                   deleteRBACResources srv u cs kubefedNamespace unjoiningClusterName
                                     hostClusterName dryRun tr;
                                 (err, tr) =
                                   deleteFedNSFromUnjoinCluster srv u hostClientset cs kubefedNamespace
                                     unjoiningClusterName dryRun tr
                             in (if err \<noteq> None then False else deletionSucceeded, tr));
                      tr = (if deletionSucceeded \<or> forceDeletion
                            then deleteKubefedClusterAndSecret srv hostClientset client kubefedNamespace
                                   unjoiningClusterName dryRun tr
                            else tr)
                  in (None, tr))))"

section \<open>Unjoin: options, validation and the command\<close>

text \<open>
  The struct \<^verbatim>\<open>unjoinFederation\<close> with the fields of the three structs it embeds
  (\<^verbatim>\<open>GlobalSubcommandOptions\<close>, \<^verbatim>\<open>CommonJoinOptions\<close>, \<^verbatim>\<open>unjoinFederationOptions\<close>).
\<close>

record unjoinFederation =
  HostClusterContext :: string
  KubefedNamespace :: string
  Kubeconfig :: string
  DryRun :: bool
  ClusterName :: string
  ClusterContext :: string
  HostClusterName :: string
  forceDeletion :: bool

text \<open>The interface \<^verbatim>\<open>util.FedConfig\<close>, whose implementation is not among the sources.\<close>

record FedConfig =
  HostConfig :: "string \<Rightarrow> string \<Rightarrow> error + rest_Config"
  ClusterConfig :: "string \<Rightarrow> string \<Rightarrow> error + rest_Config"

definition SetName :: "unjoinFederation \<Rightarrow> string list \<Rightarrow> error option \<times> unjoinFederation" where
  "SetName opts args =
     (if length args = 0 then (Some (New ''NAME is required''), opts)
      else (None, opts\<lparr>ClusterName := args ! 0\<rparr>))"

text \<open>\<^verbatim>\<open>strings.ContainsAny(s, chars)\<close> on byte strings; exact when \<open>chars\<close> is ASCII, as
  the only argument \<^verbatim>\<open>":/"\<close> of the code is.\<close>

definition ContainsAny :: "string \<Rightarrow> string \<Rightarrow> bool" where
  "ContainsAny s chars = (set s \<inter> set chars \<noteq> {})"

definition Complete :: "unjoinFederation \<Rightarrow> string list \<Rightarrow> error option \<times> unjoinFederation" where
  \<open>Complete j args =
     (case SetName j args of
        (Some err, j) \<Rightarrow> (Some err, j)
      | (None, j) \<Rightarrow>
          let j = (if ClusterContext j = '''' then j\<lparr>ClusterContext := ClusterName j\<rparr> else j) in
          if HostClusterName j \<noteq> '''' \<and> ContainsAny (HostClusterName j) '':/''
          then (Some (New ''host-cluster-name may not contain "/" or ":"''), j)
          else if HostClusterName j = '''' \<and> ContainsAny (HostClusterContext j) '':/''
          then (Some (New ''host-cluster-name must be set if the name of the host cluster context contains one of ":" or "/"''), j)
          else (None, j))\<close>

definition Run :: "api \<Rightarrow> util \<Rightarrow> unjoinFederation \<Rightarrow> FedConfig \<Rightarrow> request list \<Rightarrow> error option \<times> request list" where
  "Run srv u j config tr =
     (case HostConfig config (HostClusterContext j) (Kubeconfig j) of
        Inl err \<Rightarrow> (Some err, tr)
      | Inr hostConfig \<Rightarrow>
         (case (case ClusterConfig config (ClusterContext j) (Kubeconfig j) of
                  Inl err \<Rightarrow> if \<not> forceDeletion j then Inl err else Inr None
                | Inr cfg \<Rightarrow> Inr (Some cfg)) of
            Inl err \<Rightarrow> (Some err, tr)
          | Inr clusterConfig \<Rightarrow>
              let hostClusterName =
                    (if HostClusterName j \<noteq> '''' then HostClusterName j else HostClusterContext j)
              in UnjoinCluster srv u hostConfig clusterConfig (KubefedNamespace j) hostClusterName
                   (HostClusterContext j) (ClusterContext j) (ClusterName j) (forceDeletion j) (DryRun j) tr))"

text \<open>
  The \<^verbatim>\<open>Run\<close> closure of the command built by \<^verbatim>\<open>NewCmdUnjoin\<close>: \<^verbatim>\<open>Complete\<close>, then
  \<^verbatim>\<open>Run\<close>. \<^verbatim>\<open>klog.Fatalf\<close> ends the process; the error it reports is the result.
\<close>

definition NewCmdUnjoin_Run ::
  "api \<Rightarrow> util \<Rightarrow> FedConfig \<Rightarrow> unjoinFederation \<Rightarrow> string list \<Rightarrow> request list
     \<Rightarrow> error option \<times> request list" where
  "NewCmdUnjoin_Run srv u config opts args tr =
     (case Complete opts args of
        (Some err, opts) \<Rightarrow> (Some err, tr)
      | (None, opts) \<Rightarrow> Run srv u opts config tr)"

section \<open>Health and zones of a member cluster\<close>

datatype ClusterConditionType = ClusterReady | ClusterOffline

datatype ConditionStatus = ConditionTrue | ConditionFalse | ConditionUnknown

record ClusterCondition =
  Type :: ClusterConditionType
  Status :: ConditionStatus
  Reason :: string
  Message :: string
  LastProbeTime :: nat
  LastTransitionTime :: nat

text \<open>Of \<^verbatim>\<open>KubeFedClusterStatus\<close> the function sets \<^verbatim>\<open>Conditions\<close> only.\<close>

record KubeFedClusterStatus =
  Conditions :: "ClusterCondition list"

text \<open>
  \<open>GetClusterHealthStatus\<close> takes what the code reads from outside: \<open>EqualFold\<close> is
  \<^verbatim>\<open>strings.EqualFold\<close> of the Go library, \<open>currentTime\<close> is \<^verbatim>\<open>metav1.Now()\<close>, and
  \<open>(body, err)\<close> is the result of the request to \<^verbatim>\<open>/healthz\<close>.
\<close>

definition GetClusterHealthStatus ::
  "(string \<Rightarrow> string \<Rightarrow> bool) \<Rightarrow> nat \<Rightarrow> string \<times> error option \<Rightarrow> KubeFedClusterStatus" where
  "GetClusterHealthStatus EqualFold currentTime resp =
     (let clusterStatus = \<lparr>Conditions = []\<rparr>;
          newClusterReadyCondition =
            \<lparr>Type = ClusterReady, Status = ConditionTrue, Reason = ''ClusterReady'',
             Message = ''/healthz responded with ok'',
             LastProbeTime = currentTime, LastTransitionTime = currentTime\<rparr>;
          newClusterNotReadyCondition =
            \<lparr>Type = ClusterReady, Status = ConditionFalse, Reason = ''ClusterNotReady'',
             Message = ''/healthz responded without ok'',
             LastProbeTime = currentTime, LastTransitionTime = currentTime\<rparr>;
          newClusterOfflineCondition =
            \<lparr>Type = ClusterOffline, Status = ConditionTrue, Reason = ''ClusterNotReachable'',
             Message = ''cluster is not reachable'',
             LastProbeTime = currentTime, LastTransitionTime = currentTime\<rparr>;
          newClusterNotOfflineCondition =
            \<lparr>Type = ClusterOffline, Status = ConditionFalse, Reason = ''ClusterReachable'',
             Message = ''cluster is reachable'',
             LastProbeTime = currentTime, LastTransitionTime = currentTime\<rparr>;
          (body, err) = resp
      in if err \<noteq> None
         then clusterStatus\<lparr>Conditions := Conditions clusterStatus @ [newClusterOfflineCondition]\<rparr>
         else if \<not> EqualFold body ''ok''
         then clusterStatus\<lparr>Conditions := Conditions clusterStatus @
                [newClusterNotReadyCondition, newClusterNotOfflineCondition]\<rparr>
         else clusterStatus\<lparr>Conditions := Conditions clusterStatus @ [newClusterReadyCondition]\<rparr>)"

definition LabelZoneFailureDomain :: string where
  "LabelZoneFailureDomain = ''failure-domain.beta.kubernetes.io/zone''"

definition LabelZoneRegion :: string where
  "LabelZoneRegion = ''failure-domain.beta.kubernetes.io/region''"

record Node =
  Labels :: "string \<rightharpoonup> string"

text \<open>
  The two functions range over the label map and return the value of the first key
  that equals the label; a Go map holds a key at most once, so that is the lookup.
\<close>

definition getZoneNameForNode :: "Node \<Rightarrow> string" where
  "getZoneNameForNode node =
     (case Labels node LabelZoneFailureDomain of Some v \<Rightarrow> v | None \<Rightarrow> '''')"

definition getRegionNameForNode :: "Node \<Rightarrow> string" where
  "getRegionNameForNode node =
     (case Labels node LabelZoneRegion of Some v \<Rightarrow> v | None \<Rightarrow> '''')"

text \<open>The loop \<^verbatim>\<open>for i, node := range nodes.Items\<close>; \<open>zones\<close> is the \<^verbatim>\<open>sets.String\<close>.\<close>

fun zonesLoop :: "nat \<Rightarrow> Node list \<Rightarrow> string set \<Rightarrow> string \<Rightarrow> string set \<times> string" where
  "zonesLoop i [] zones region = (zones, region)"
| "zonesLoop i (node # items) zones region =
     (let zone = getZoneNameForNode node;
          region = (if i = 0 then getRegionNameForNode node else region);
          zones = (if zone \<noteq> '''' \<and> zone \<notin> zones then insert zone zones else zones)
      in zonesLoop (Suc i) items zones region)"

text \<open>
  \<open>nodes\<close> is the result of \<^verbatim>\<open>Nodes().List\<close>. \<^verbatim>\<open>zones.List()\<close> returns the members of
  the set as a sorted slice (byte-wise order of strings).
\<close>

definition GetClusterZones :: "error + Node list \<Rightarrow> string list \<times> string \<times> error option" where
  "GetClusterZones nodes =
     (case nodes of
        Inl err \<Rightarrow> ([], '''', Some err)
      | Inr items \<Rightarrow>
          let (zones, region) = zonesLoop 0 items {} ''''
          in (sorted_list_of_set zones, region, None))"

section \<open>Vocabulary of the properties and instances for the examples\<close>

text \<open>The requests that read or change the host's record of a member cluster: the
  \<^verbatim>\<open>KubefedCluster\<close> object and the secret it refers to.\<close>

fun hostRecordRequest :: "request \<Rightarrow> bool" where
  "hostRecordRequest (Secrets_Delete c ns n) = True"
| "hostRecordRequest (KubefedCluster_Get c ns n) = True"
| "hostRecordRequest (KubefedCluster_Delete c ns n) = True"
| "hostRecordRequest r = False"

text \<open>The requests that change a cluster: every request but the two lookups.\<close>

fun mutating :: "request \<Rightarrow> bool" where
  "mutating (Namespaces_Get c n) = False"
| "mutating (KubefedCluster_Get c ns n) = False"
| "mutating r = True"

text \<open>
  An instance of the parameters \<open>util\<close>: clients are always built, and a client is
  named after the configuration it is built from; names are composed as the
  \<^verbatim>\<open>kubefedctl\<close> of the project does; two namespace objects are the same object when
  their UIDs are equal.
\<close>

definition example_util :: util where
  "example_util =
     \<lparr>HostClientset = (\<lambda>c. case c of rest_Config h \<Rightarrow> Inr (Clientset h)),
      ClusterClientset = (\<lambda>c. case c of rest_Config h \<Rightarrow> Inr (Clientset h)),
      genericclient_New = (\<lambda>c. case c of rest_Config h \<Rightarrow> Inr (generic_Client h)),
      ClusterServiceAccountName = (\<lambda>joining host. joining @ ''-'' @ host),
      RoleName = (\<lambda>sa. ''kubefed-controller-manager:'' @ sa),
      HealthCheckRoleName = (\<lambda>sa ns. ''kubefed-controller-manager:'' @ ns @ '':healthcheck-'' @ sa),
      IsPrimaryCluster = (\<lambda>a b. ns_UID a = ns_UID b)\<rparr>"

text \<open>
  A pair of clusters in which every object exists until a request deletes it: a
  delete sent a second time, and a lookup after the delete, answer NotFound. The
  namespace of a cluster has the cluster's name as UID.
\<close>

definition fake_api :: api where
  "fake_api =
     \<lparr>on_Delete = (\<lambda>tr r. if r \<in> set tr then Some NotFound else None),
      on_Namespaces_Get = (\<lambda>tr r.
         case r of
           Namespaces_Get c n \<Rightarrow>
             if Namespaces_Delete c n \<in> set tr then Inl NotFound
             else Inr \<lparr>ns_Name = n, ns_UID = (case c of Clientset h \<Rightarrow> h)\<rparr>
         | _ \<Rightarrow> Inl (Other ''not a namespace lookup'')),
      on_KubefedCluster_Get = (\<lambda>tr r.
         case r of
           KubefedCluster_Get c ns n \<Rightarrow>
             if KubefedCluster_Delete c ns n \<in> set tr then Inl NotFound
             else Inr \<lparr>fc_Namespace = ns, fc_Name = n, fc_SecretRef_Name = n @ ''-secret''\<rparr>
         | _ \<Rightarrow> Inl (Other ''not a KubefedCluster lookup''))\<rparr>"

text \<open>The same clusters, except that every delete is answered by \<open>answer\<close> and
  nothing is ever deleted.\<close>

definition answering_api :: "error option \<Rightarrow> api" where
  "answering_api answer = fake_api\<lparr>on_Delete := (\<lambda>tr r. answer)\<rparr>"

definition example_config :: FedConfig where
  "example_config =
     \<lparr>HostConfig = (\<lambda>context kubeconfig. Inr (rest_Config context)),
      ClusterConfig = (\<lambda>context kubeconfig. Inr (rest_Config context))\<rparr>"

text \<open>The command line \<^verbatim>\<open>kubefedctl unjoin cluster2 --host-cluster-context=cluster1\<close>
  before \<open>Complete\<close>.\<close>

definition example_options :: unjoinFederation where
  "example_options =
     \<lparr>HostClusterContext = ''cluster1'', KubefedNamespace = ''kube-federation-system'',
      Kubeconfig = '''', DryRun = False, ClusterName = '''', ClusterContext = '''',
      HostClusterName = '''', forceDeletion = False\<rparr>"

text \<open>\<^verbatim>\<open>strings.EqualFold\<close> on ASCII strings, where it is equality up to the case of
  the letters A to Z.\<close>

definition toLowerASCII :: "char \<Rightarrow> char" where
  "toLowerASCII c =
     (if CHR ''A'' \<le> c \<and> c \<le> CHR ''Z'' then char_of (of_char c + (32 :: nat)) else c)"

definition EqualFold_ASCII :: "string \<Rightarrow> string \<Rightarrow> bool" where
  "EqualFold_ASCII s t = (map toLowerASCII s = map toLowerASCII t)"

definition labelled_node :: "string \<Rightarrow> string \<Rightarrow> Node" where
  "labelled_node zone region =
     \<lparr>Labels = [LabelZoneFailureDomain \<mapsto> zone, LabelZoneRegion \<mapsto> region]\<rparr>"

section \<open>Teardown of the delegated identity\<close>

lemma IsNotFound_iff: "IsNotFound err = (err = Some NotFound)"
  by (cases err rule: IsNotFound.cases) simp_all

lemma deleteClusterRoleAndBinding_dry:
  "deleteClusterRoleAndBinding srv u cs saName namespace True tr = (True, tr)"
  by (simp add: deleteClusterRoleAndBinding_def)

lemma deleteClusterRoleAndBinding_trace:
  "snd (deleteClusterRoleAndBinding srv u cs saName namespace False tr) =
     tr @ [ClusterRoleBindings_Delete cs (RoleName u saName),
           ClusterRoles_Delete cs (RoleName u saName),
           ClusterRoleBindings_Delete cs (HealthCheckRoleName u saName namespace),
           ClusterRoles_Delete cs (HealthCheckRoleName u saName namespace),
           RoleBindings_Delete cs namespace (RoleName u saName),
           Roles_Delete cs namespace (RoleName u saName)]"
  by (simp add: deleteClusterRoleAndBinding_def Delete_def Let_def split_def)


lemma deleteClusterRoleAndBinding_flag:
  "fst (deleteClusterRoleAndBinding srv u cs saName namespace False tr) =
     (let r1 = ClusterRoleBindings_Delete cs (RoleName u saName);
          r2 = ClusterRoles_Delete cs (RoleName u saName);
          r3 = ClusterRoleBindings_Delete cs (HealthCheckRoleName u saName namespace);
          r4 = ClusterRoles_Delete cs (HealthCheckRoleName u saName namespace);
          r5 = RoleBindings_Delete cs namespace (RoleName u saName);
          r6 = Roles_Delete cs namespace (RoleName u saName)
      in on_Delete srv tr r1 \<in> {None, Some NotFound}
       \<and> on_Delete srv (tr @ [r1]) r2 \<in> {None, Some NotFound}
       \<and> on_Delete srv (tr @ [r1, r2]) r3 \<in> {None, Some NotFound}
       \<and> on_Delete srv (tr @ [r1, r2, r3]) r4 \<in> {None, Some NotFound}
       \<and> on_Delete srv (tr @ [r1, r2, r3, r4]) r5 \<in> {None, Some NotFound}
       \<and> on_Delete srv (tr @ [r1, r2, r3, r4, r5]) r6 \<in> {None, Some NotFound})"
  by (simp add: deleteClusterRoleAndBinding_def Delete_def Let_def split_def IsNotFound_iff)

lemma deleteRBACResources_trace:
  "snd (deleteRBACResources srv u cs namespace cname hname False tr) =
     (let saName = ClusterServiceAccountName u cname hname in
      tr @ [ClusterRoleBindings_Delete cs (RoleName u saName),
           ClusterRoles_Delete cs (RoleName u saName),
           ClusterRoleBindings_Delete cs (HealthCheckRoleName u saName namespace),
           ClusterRoles_Delete cs (HealthCheckRoleName u saName namespace),
           RoleBindings_Delete cs namespace (RoleName u saName),
           Roles_Delete cs namespace (RoleName u saName),
           ServiceAccounts_Delete cs namespace saName])"
  by (simp add: deleteRBACResources_def deleteServiceAccount_def Delete_def Let_def split_def
        deleteClusterRoleAndBinding_trace)

lemma deleteRBACResources_flag:
  "fst (deleteRBACResources srv u cs namespace cname hname False tr) =
     (let saName = ClusterServiceAccountName u cname hname in
      fst (deleteClusterRoleAndBinding srv u cs saName namespace False tr) \<and>
      on_Delete srv (snd (deleteClusterRoleAndBinding srv u cs saName namespace False tr))
         (ServiceAccounts_Delete cs namespace saName) = None)"
  by (auto simp add: deleteRBACResources_def deleteServiceAccount_def Delete_def Let_def split_def)


lemma less_six: "(k::nat) < 6 \<Longrightarrow> k = 0 \<or> k = 1 \<or> k = 2 \<or> k = 3 \<or> k = 4 \<or> k = 5"
  by arith

text \<open>
  Claim C9. Without dry-run, \<open>deleteClusterRoleAndBinding\<close> sends its six deletions
  and \<open>deleteRBACResources\<close> the same six followed by the deletion of the service
  account, in this order, whatever the server answers. When the answer to any of the
  six is an error other than NotFound, both functions report failure; the deletions
  after it, the service account's among them, are sent all the same.
\<close>

theorem deleteRBACResources_best_effort:
  "let saName = ClusterServiceAccountName u unjoiningClusterName hostClusterName;
       roleName = RoleName u saName;
       healthCheckRoleName = HealthCheckRoleName u saName namespace;
       rs = [ClusterRoleBindings_Delete cs roleName, ClusterRoles_Delete cs roleName,
             ClusterRoleBindings_Delete cs healthCheckRoleName, ClusterRoles_Delete cs healthCheckRoleName,
             RoleBindings_Delete cs namespace roleName, Roles_Delete cs namespace roleName];
       (roles, tr6) = deleteClusterRoleAndBinding srv u cs saName namespace False tr;
       (rbac, tr7) = deleteRBACResources srv u cs namespace unjoiningClusterName hostClusterName False tr
   in tr6 = tr @ rs
    \<and> tr7 = tr @ rs @ [ServiceAccounts_Delete cs namespace saName]
    \<and> (\<forall>k<6. on_Delete srv (tr @ take k rs) (rs ! k) \<notin> {None, Some NotFound} \<longrightarrow> \<not> roles \<and> \<not> rbac)"
proof -
  define saName where "saName = ClusterServiceAccountName u unjoiningClusterName hostClusterName"
  define rs where "rs = [ClusterRoleBindings_Delete cs (RoleName u saName), ClusterRoles_Delete cs (RoleName u saName),
             ClusterRoleBindings_Delete cs (HealthCheckRoleName u saName namespace),
             ClusterRoles_Delete cs (HealthCheckRoleName u saName namespace),
             RoleBindings_Delete cs namespace (RoleName u saName), Roles_Delete cs namespace (RoleName u saName)]"
  have t6: "snd (deleteClusterRoleAndBinding srv u cs saName namespace False tr) = tr @ rs"
    by (simp add: deleteClusterRoleAndBinding_trace rs_def)
  have t7: "snd (deleteRBACResources srv u cs namespace unjoiningClusterName hostClusterName False tr) =
              tr @ rs @ [ServiceAccounts_Delete cs namespace saName]"
    by (simp add: deleteRBACResources_trace rs_def saName_def Let_def)
  have roles: "\<not> fst (deleteClusterRoleAndBinding srv u cs saName namespace False tr)"
    if "k < 6" and "on_Delete srv (tr @ take k rs) (rs ! k) \<notin> {None, Some NotFound}" for k
    using less_six [OF that(1)] that(2)
    by (auto simp add: deleteClusterRoleAndBinding_flag Let_def rs_def)
  have rbac: "\<not> fst (deleteRBACResources srv u cs namespace unjoiningClusterName hostClusterName False tr)"
    if "k < 6" and "on_Delete srv (tr @ take k rs) (rs ! k) \<notin> {None, Some NotFound}" for k
    using roles [OF that] by (simp add: deleteRBACResources_flag Let_def saName_def)
  show ?thesis
    using t6 t7 roles rbac
    by (simp add: Let_def split_def saName_def [symmetric] rs_def [symmetric] del: insert_iff)
qed


text \<open>An instance: the server refuses to delete cluster roles and accepts every other
  deletion.\<close>

theorem deleteRBACResources_best_effort_witness:
  "on_Delete (fake_api\<lparr>on_Delete := (\<lambda>tr r. case r of ClusterRoles_Delete c n \<Rightarrow> Some Forbidden | _ \<Rightarrow> None)\<rparr>)
      [ClusterRoleBindings_Delete (Clientset ''cluster2'') ''kubefed-controller-manager:cluster2-cluster1'']
      (ClusterRoles_Delete (Clientset ''cluster2'') ''kubefed-controller-manager:cluster2-cluster1'')
     \<notin> {None, Some NotFound}
   \<and> deleteRBACResources
       (fake_api\<lparr>on_Delete := (\<lambda>tr r. case r of ClusterRoles_Delete c n \<Rightarrow> Some Forbidden | _ \<Rightarrow> None)\<rparr>)
       example_util (Clientset ''cluster2'') ''kube-federation-system'' ''cluster2'' ''cluster1'' False []
     = (False,
        [ClusterRoleBindings_Delete (Clientset ''cluster2'') ''kubefed-controller-manager:cluster2-cluster1'',
         ClusterRoles_Delete (Clientset ''cluster2'') ''kubefed-controller-manager:cluster2-cluster1'',
         ClusterRoleBindings_Delete (Clientset ''cluster2'')
           ''kubefed-controller-manager:kube-federation-system:healthcheck-cluster2-cluster1'',
         ClusterRoles_Delete (Clientset ''cluster2'')
           ''kubefed-controller-manager:kube-federation-system:healthcheck-cluster2-cluster1'',
         RoleBindings_Delete (Clientset ''cluster2'') ''kube-federation-system''
           ''kubefed-controller-manager:cluster2-cluster1'',
         Roles_Delete (Clientset ''cluster2'') ''kube-federation-system''
           ''kubefed-controller-manager:cluster2-cluster1'',
         ServiceAccounts_Delete (Clientset ''cluster2'') ''kube-federation-system'' ''cluster2-cluster1''])"
proof -
  let ?srv = "fake_api\<lparr>on_Delete := (\<lambda>tr r. case r of ClusterRoles_Delete c n \<Rightarrow> Some Forbidden | _ \<Rightarrow> None)\<rparr>"
  let ?run = "deleteRBACResources ?srv example_util (Clientset ''cluster2'') ''kube-federation-system''
                ''cluster2'' ''cluster1'' False []"
  note best = deleteRBACResources_best_effort
    [of example_util "''cluster2''" "''cluster1''" "''kube-federation-system''" "Clientset ''cluster2''" ?srv "[]"]
  have failed: "on_Delete ?srv
      [ClusterRoleBindings_Delete (Clientset ''cluster2'') ''kubefed-controller-manager:cluster2-cluster1'']
      (ClusterRoles_Delete (Clientset ''cluster2'') ''kubefed-controller-manager:cluster2-cluster1'')
     \<notin> {None, Some NotFound}"
    by simp
  from best have all: "\<forall>k<6. on_Delete ?srv
        (take k [ClusterRoleBindings_Delete (Clientset ''cluster2'') ''kubefed-controller-manager:cluster2-cluster1'',
         ClusterRoles_Delete (Clientset ''cluster2'') ''kubefed-controller-manager:cluster2-cluster1'',
         ClusterRoleBindings_Delete (Clientset ''cluster2'')
           ''kubefed-controller-manager:kube-federation-system:healthcheck-cluster2-cluster1'',
         ClusterRoles_Delete (Clientset ''cluster2'')
           ''kubefed-controller-manager:kube-federation-system:healthcheck-cluster2-cluster1'',
         RoleBindings_Delete (Clientset ''cluster2'') ''kube-federation-system''
           ''kubefed-controller-manager:cluster2-cluster1'',
         Roles_Delete (Clientset ''cluster2'') ''kube-federation-system''
           ''kubefed-controller-manager:cluster2-cluster1''])
        ([ClusterRoleBindings_Delete (Clientset ''cluster2'') ''kubefed-controller-manager:cluster2-cluster1'',
         ClusterRoles_Delete (Clientset ''cluster2'') ''kubefed-controller-manager:cluster2-cluster1'',
         ClusterRoleBindings_Delete (Clientset ''cluster2'')
           ''kubefed-controller-manager:kube-federation-system:healthcheck-cluster2-cluster1'',
         ClusterRoles_Delete (Clientset ''cluster2'')
           ''kubefed-controller-manager:kube-federation-system:healthcheck-cluster2-cluster1'',
         RoleBindings_Delete (Clientset ''cluster2'') ''kube-federation-system''
           ''kubefed-controller-manager:cluster2-cluster1'',
         Roles_Delete (Clientset ''cluster2'') ''kube-federation-system''
           ''kubefed-controller-manager:cluster2-cluster1''] ! k) \<notin> {None, Some NotFound}
       \<longrightarrow> \<not> fst ?run"
    and trace: "snd ?run =
        [ClusterRoleBindings_Delete (Clientset ''cluster2'') ''kubefed-controller-manager:cluster2-cluster1'',
         ClusterRoles_Delete (Clientset ''cluster2'') ''kubefed-controller-manager:cluster2-cluster1'',
         ClusterRoleBindings_Delete (Clientset ''cluster2'')
           ''kubefed-controller-manager:kube-federation-system:healthcheck-cluster2-cluster1'',
         ClusterRoles_Delete (Clientset ''cluster2'')
           ''kubefed-controller-manager:kube-federation-system:healthcheck-cluster2-cluster1'',
         RoleBindings_Delete (Clientset ''cluster2'') ''kube-federation-system''
           ''kubefed-controller-manager:cluster2-cluster1'',
         Roles_Delete (Clientset ''cluster2'') ''kube-federation-system''
           ''kubefed-controller-manager:cluster2-cluster1'',
         ServiceAccounts_Delete (Clientset ''cluster2'') ''kube-federation-system'' ''cluster2-cluster1'']"
    by (simp_all add: Let_def split_def example_util_def del: insert_iff)
  from all [rule_format, of 1] failed have "\<not> fst ?run"
    by simp
  with trace failed show ?thesis
    by (simp add: prod_eq_iff)
qed

section \<open>A member cluster whose objects are already gone\<close>

text \<open>
  Claim C1. Take any server that answers NotFound to every deletion, as a member cluster
  does once its delegated identity is gone. The six deletions of roles and bindings
  count as done, but \<open>deleteServiceAccount\<close> hands the NotFound of the service account
  back as an error, and \<open>deleteRBACResources\<close> reports failure: for the service account
  alone an absent object is not a completed step.
\<close>

theorem deleteRBACResources_NotFound_fails:
  "fst (deleteClusterRoleAndBinding (srv\<lparr>on_Delete := (\<lambda>tr r. Some NotFound)\<rparr>) u cs
          (ClusterServiceAccountName u unjoiningClusterName hostClusterName) namespace False tr)
   \<and> fst (deleteServiceAccount (srv\<lparr>on_Delete := (\<lambda>tr r. Some NotFound)\<rparr>) cs
          (ClusterServiceAccountName u unjoiningClusterName hostClusterName) namespace False
          (snd (deleteClusterRoleAndBinding (srv\<lparr>on_Delete := (\<lambda>tr r. Some NotFound)\<rparr>) u cs
                 (ClusterServiceAccountName u unjoiningClusterName hostClusterName) namespace False tr)))
       = Some NotFound
   \<and> \<not> fst (deleteRBACResources (srv\<lparr>on_Delete := (\<lambda>tr r. Some NotFound)\<rparr>) u cs namespace
               unjoiningClusterName hostClusterName False tr)"
  by (simp add: deleteClusterRoleAndBinding_flag deleteRBACResources_flag deleteServiceAccount_def
        Delete_def Let_def)

section \<open>Dry-run and the shape of the orchestration\<close>

lemma deleteServiceAccount_dry:
  "deleteServiceAccount srv cs saName namespace True tr = (None, tr)"
  by (simp add: deleteServiceAccount_def)

lemma deleteRBACResources_dry:
  "deleteRBACResources srv u cs namespace cname hname True tr = (True, tr)"
  by (simp add: deleteRBACResources_def deleteClusterRoleAndBinding_dry deleteServiceAccount_dry)

lemma deleteFedNSFromUnjoinCluster_dry:
  "deleteFedNSFromUnjoinCluster srv u hcs cs ns cname True tr = (None, tr)"
  by (simp add: deleteFedNSFromUnjoinCluster_def)

lemma deleteKubefedClusterAndSecret_dry:
  "deleteKubefedClusterAndSecret srv hcs client ns cname True tr = tr"
  by (simp add: deleteKubefedClusterAndSecret_def)

lemma UnjoinCluster_dry_trace:
  "snd (UnjoinCluster srv u hostConfig clusterConfig ns hname hctx cctx cname force True tr) = tr"
  by (simp add: UnjoinCluster_def deleteRBACResources_dry deleteFedNSFromUnjoinCluster_dry
        deleteKubefedClusterAndSecret_dry split: sum.splits option.splits)

lemma UnjoinCluster_error_independent_of_dryRun:
  "fst (UnjoinCluster srv u hostConfig clusterConfig ns hname hctx cctx cname force dryRun tr) =
   fst (UnjoinCluster srv u hostConfig clusterConfig ns hname hctx cctx cname force False tr)"
  by (simp add: UnjoinCluster_def split_def Let_def split: sum.splits option.splits)

lemma UnjoinCluster_with_member:
  assumes "HostClientset u hostConfig = Inr hcs" and "genericclient_New u hostConfig = Inr client"
    and "clusterConfig = Some cfg" and "ClusterClientset u cfg = Inr cs"
  shows "UnjoinCluster srv u hostConfig clusterConfig ns hname hctx cctx cname force dryRun tr =
     (None,
      let (rbac, tr1) = deleteRBACResources srv u cs ns cname hname dryRun tr;
          (err, tr2) = deleteFedNSFromUnjoinCluster srv u hcs cs ns cname dryRun tr1
      in if (rbac \<and> err = None) \<or> force
         then deleteKubefedClusterAndSecret srv hcs client ns cname dryRun tr2 else tr2)"
  using assms by (simp add: UnjoinCluster_def split_def Let_def)

lemma UnjoinCluster_without_member:
  assumes "HostClientset u hostConfig = Inr hcs" and "genericclient_New u hostConfig = Inr client"
    and "clusterConfig = None \<or> (\<exists>cfg e. clusterConfig = Some cfg \<and> ClusterClientset u cfg = Inl e \<and> force)"
  shows "UnjoinCluster srv u hostConfig clusterConfig ns hname hctx cctx cname force dryRun tr =
     (None, if force then deleteKubefedClusterAndSecret srv hcs client ns cname dryRun tr else tr)"
  using assms by (auto simp add: UnjoinCluster_def split_def Let_def)

lemma deleteRBACResources_requests:
  "\<exists>new. snd (deleteRBACResources srv u cs ns cname hname dryRun tr) = tr @ new
      \<and> filter hostRecordRequest new = []"
  by (cases dryRun) (simp_all add: deleteRBACResources_dry deleteRBACResources_trace Let_def)

lemma deleteFedNSFromUnjoinCluster_requests:
  "\<exists>new. snd (deleteFedNSFromUnjoinCluster srv u hcs cs ns cname dryRun tr) = tr @ new
      \<and> filter hostRecordRequest new = []"
  by (simp add: deleteFedNSFromUnjoinCluster_def Get_Namespace_def Delete_def split_def Let_def
        split: sum.splits option.splits)

lemma deleteKubefedClusterAndSecret_requests:
  "deleteKubefedClusterAndSecret srv hcs client ns cname False tr =
     (case on_KubefedCluster_Get srv tr (KubefedCluster_Get client ns cname) of
        Inl err \<Rightarrow> tr @ [KubefedCluster_Get client ns cname]
      | Inr fedCluster \<Rightarrow>
          tr @ [KubefedCluster_Get client ns cname,
                Secrets_Delete hcs ns (fc_SecretRef_Name fedCluster),
                KubefedCluster_Delete client (fc_Namespace fedCluster) (fc_Name fedCluster)])"
  by (simp add: deleteKubefedClusterAndSecret_def Get_KubefedCluster_def Delete_def split: sum.splits)

section \<open>The orchestration\<close>

text \<open>
  Claim C2. Let the host clientset and the generic client be built. With a member
  clientset, let \<open>teardown\<close> say that \<open>deleteRBACResources\<close> returned true and
  \<open>deleteFedNSFromUnjoinCluster\<close> returned no error. If \<open>teardown\<close> or \<open>force\<close> holds,
  \<open>UnjoinCluster\<close> goes on with \<open>deleteKubefedClusterAndSecret\<close>; otherwise it stops
  after the teardown and has sent no request about the host's record or secret.
  Without dry-run the lookup of the record is among the requests sent exactly when
  \<open>teardown\<close> or \<open>force\<close> holds. Without a member clientset there is no teardown, the
  flag stays false, and the deregistration runs exactly when \<open>force\<close> holds.
\<close>

theorem UnjoinCluster_deregisters_iff:
  assumes "HostClientset u hostConfig = Inr hostClientset"
    and "genericclient_New u hostConfig = Inr client"
  shows
    "(\<forall>cfg cs. clusterConfig = Some cfg \<and> ClusterClientset u cfg = Inr cs \<longrightarrow>
        (let (rbac, tr1) = deleteRBACResources srv u cs ns cname hname dryRun tr;
             (err, tr2) = deleteFedNSFromUnjoinCluster srv u hostClientset cs ns cname dryRun tr1;
             teardown = (rbac \<and> err = None);
             tr' = snd (UnjoinCluster srv u hostConfig clusterConfig ns hname hctx cctx cname force dryRun tr)
         in (teardown \<or> force \<longrightarrow>
               tr' = deleteKubefedClusterAndSecret srv hostClientset client ns cname dryRun tr2)
          \<and> (\<not> (teardown \<or> force) \<longrightarrow>
               tr' = tr2 \<and> filter hostRecordRequest (drop (length tr) tr') = [])
          \<and> (\<not> dryRun \<longrightarrow>
               (KubefedCluster_Get client ns cname \<in> set (drop (length tr) tr')) = (teardown \<or> force))))
   \<and> (clusterConfig = None \<or> (\<exists>cfg e. clusterConfig = Some cfg \<and> ClusterClientset u cfg = Inl e \<and> force) \<longrightarrow>
        snd (UnjoinCluster srv u hostConfig clusterConfig ns hname hctx cctx cname force dryRun tr) =
          (if force then deleteKubefedClusterAndSecret srv hostClientset client ns cname dryRun tr else tr))"
proof (intro conjI allI impI)
  fix cfg cs
  assume member: "clusterConfig = Some cfg \<and> ClusterClientset u cfg = Inr cs"
  obtain rbac tr1 where r: "deleteRBACResources srv u cs ns cname hname dryRun tr = (rbac, tr1)"
    by (cases "deleteRBACResources srv u cs ns cname hname dryRun tr")
  obtain err tr2 where n: "deleteFedNSFromUnjoinCluster srv u hostClientset cs ns cname dryRun tr1 = (err, tr2)"
    by (cases "deleteFedNSFromUnjoinCluster srv u hostClientset cs ns cname dryRun tr1")
  from deleteRBACResources_requests [of srv u cs ns cname hname dryRun tr] r
  obtain new1 where new1: "tr1 = tr @ new1" "filter hostRecordRequest new1 = []"
    by auto
  from deleteFedNSFromUnjoinCluster_requests [of srv u hostClientset cs ns cname dryRun tr1] n
  obtain new2 where new2: "tr2 = tr1 @ new2" "filter hostRecordRequest new2 = []"
    by auto
  have unjoin: "snd (UnjoinCluster srv u hostConfig clusterConfig ns hname hctx cctx cname force dryRun tr) =
      (if (rbac \<and> err = None) \<or> force
       then deleteKubefedClusterAndSecret srv hostClientset client ns cname dryRun tr2 else tr2)"
    using UnjoinCluster_with_member [OF assms, of clusterConfig cfg cs srv ns hname hctx cctx cname force dryRun tr]
      member r n by simp
  have quiet: "filter hostRecordRequest (drop (length tr) tr2) = []"
    using new1 new2 by simp
  have absent: "KubefedCluster_Get client ns cname \<notin> set (drop (length tr) tr2)"
  proof
    assume "KubefedCluster_Get client ns cname \<in> set (drop (length tr) tr2)"
    then have "KubefedCluster_Get client ns cname \<in> set (filter hostRecordRequest (drop (length tr) tr2))"
      by simp
    with quiet show False by simp
  qed
  have present: "KubefedCluster_Get client ns cname \<in>
      set (drop (length tr) (deleteKubefedClusterAndSecret srv hostClientset client ns cname False tr2))"
    using new1 new2 by (simp add: deleteKubefedClusterAndSecret_requests split: sum.splits)
  show "let (rbac, tr1) = deleteRBACResources srv u cs ns cname hname dryRun tr;
             (err, tr2) = deleteFedNSFromUnjoinCluster srv u hostClientset cs ns cname dryRun tr1;
             teardown = (rbac \<and> err = None);
             tr' = snd (UnjoinCluster srv u hostConfig clusterConfig ns hname hctx cctx cname force dryRun tr)
         in (teardown \<or> force \<longrightarrow>
               tr' = deleteKubefedClusterAndSecret srv hostClientset client ns cname dryRun tr2)
          \<and> (\<not> (teardown \<or> force) \<longrightarrow>
               tr' = tr2 \<and> filter hostRecordRequest (drop (length tr) tr') = [])
          \<and> (\<not> dryRun \<longrightarrow>
               (KubefedCluster_Get client ns cname \<in> set (drop (length tr) tr')) = (teardown \<or> force))"
    unfolding r n Let_def prod.case unjoin
    using quiet absent present by auto
next
  assume "clusterConfig = None \<or> (\<exists>cfg e. clusterConfig = Some cfg \<and> ClusterClientset u cfg = Inl e \<and> force)"
  then show "snd (UnjoinCluster srv u hostConfig clusterConfig ns hname hctx cctx cname force dryRun tr) =
          (if force then deleteKubefedClusterAndSecret srv hostClientset client ns cname dryRun tr else tr)"
    using UnjoinCluster_without_member [OF assms, of clusterConfig force srv ns hname hctx cctx cname dryRun tr]
    by simp
qed

text \<open>
  Claim C10. Once the host clientset and the generic client are built, and the member
  clientset is built or \<open>force\<close> is set, \<open>UnjoinCluster\<close> returns no error: for
  every server, so also when every request to the member cluster fails.
\<close>

theorem UnjoinCluster_returns_nil:
  assumes "HostClientset u hostConfig = Inr hostClientset"
    and "genericclient_New u hostConfig = Inr client"
    and "(\<exists>cfg cs. clusterConfig = Some cfg \<and> ClusterClientset u cfg = Inr cs) \<or> force"
  shows "fst (UnjoinCluster srv u hostConfig clusterConfig kubefedNamespace hostClusterName hostClusterContext
                unjoiningClusterContext unjoiningClusterName force dryRun tr) = None"
  using assms
  by (auto simp add: UnjoinCluster_def split_def Let_def split: option.splits sum.splits)

text \<open>
  Claim C3. Let the host side be in order (configuration, clientset and generic client
  are built) and let the member client not be built: \<open>ClusterConfig\<close> fails, or
  \<open>ClusterClientset\<close> fails, with error \<open>e\<close>. With \<open>forceDeletion\<close>, \<open>Run\<close> returns no
  error and does nothing but \<open>deleteKubefedClusterAndSecret\<close>; without dry-run, when the
  record is found, that is its lookup followed by the deletion of the secret and of
  the record. Without \<open>forceDeletion\<close>, \<open>Run\<close> returns \<open>e\<close> and has sent no request.
\<close>

theorem Run_member_client_failure:
  assumes "HostConfig config (HostClusterContext j) (Kubeconfig j) = Inr hostConfig"
    and "HostClientset u hostConfig = Inr hostClientset"
    and "genericclient_New u hostConfig = Inr client"
    and "ClusterConfig config (ClusterContext j) (Kubeconfig j) = Inl e
         \<or> (\<exists>cfg. ClusterConfig config (ClusterContext j) (Kubeconfig j) = Inr cfg \<and> ClusterClientset u cfg = Inl e)"
  shows "(forceDeletion j \<longrightarrow>
            Run srv u j config tr =
              (None, deleteKubefedClusterAndSecret srv hostClientset client (KubefedNamespace j) (ClusterName j)
                       (DryRun j) tr))
       \<and> (forceDeletion j \<and> \<not> DryRun j
            \<and> on_KubefedCluster_Get srv tr (KubefedCluster_Get client (KubefedNamespace j) (ClusterName j))
                = Inr fedCluster \<longrightarrow>
            Run srv u j config tr =
              (None, tr @ [KubefedCluster_Get client (KubefedNamespace j) (ClusterName j),
                           Secrets_Delete hostClientset (KubefedNamespace j) (fc_SecretRef_Name fedCluster),
                           KubefedCluster_Delete client (fc_Namespace fedCluster) (fc_Name fedCluster)]))
       \<and> (\<not> forceDeletion j \<longrightarrow> Run srv u j config tr = (Some e, tr))"
  using assms
  by (auto simp add: Run_def UnjoinCluster_def deleteKubefedClusterAndSecret_requests Let_def)

text \<open>
  Claim C5, as amended. With dry-run every sub-operation returns success at once and
  leaves the trace as it found it, so \<open>UnjoinCluster\<close> and \<open>Run\<close> send no mutating
  request, and a teardown that is run reports success to the test before the
  deregistration. The decision tree is not walked in full:
  \<open>deleteFedNSFromUnjoinCluster\<close> returns before its two lookups, so the test
  \<open>IsPrimaryCluster\<close> is not made. The error \<open>UnjoinCluster\<close> returns is the one it
  returns without dry-run. The trace holds the requests of the teardown and of the
  deregistration; what building the clients sends is not part of it.
\<close>

theorem dryRun_performs_no_mutation:
  "deleteClusterRoleAndBinding srv u cs saName ns True tr = (True, tr)
   \<and> deleteServiceAccount srv cs saName ns True tr = (None, tr)
   \<and> deleteRBACResources srv u cs ns cname hname True tr = (True, tr)
   \<and> deleteFedNSFromUnjoinCluster srv u hcs cs ns cname True tr = (None, tr)
   \<and> deleteKubefedClusterAndSecret srv hcs client ns cname True tr = tr
   \<and> filter mutating
         (drop (length tr)
            (snd (UnjoinCluster srv u hostConfig clusterConfig ns hname hctx cctx cname force True tr))) = []
   \<and> filter mutating (drop (length tr) (snd (Run srv u (j\<lparr>DryRun := True\<rparr>) config tr))) = []
   \<and> fst (UnjoinCluster srv u hostConfig clusterConfig ns hname hctx cctx cname force True tr)
       = fst (UnjoinCluster srv u hostConfig clusterConfig ns hname hctx cctx cname force False tr)"
proof -
  have "snd (Run srv u (j\<lparr>DryRun := True\<rparr>) config tr) = tr"
    by (simp add: Run_def UnjoinCluster_dry_trace Let_def split: sum.splits)
  moreover note UnjoinCluster_error_independent_of_dryRun
    [of srv u hostConfig clusterConfig ns hname hctx cctx cname force True tr]
  ultimately show ?thesis
    by (simp add: deleteClusterRoleAndBinding_dry deleteServiceAccount_dry deleteRBACResources_dry
          deleteFedNSFromUnjoinCluster_dry deleteKubefedClusterAndSecret_dry UnjoinCluster_dry_trace)
qed

text \<open>
  An instance of C2: when the member cluster refuses every deletion, nothing is asked
  of the host about its record; when every deletion succeeds, the record is looked up.
\<close>

theorem UnjoinCluster_deregisters_iff_witness:
  "HostClientset example_util (rest_Config ''cluster1'') = Inr (Clientset ''cluster1'')
   \<and> genericclient_New example_util (rest_Config ''cluster1'') = Inr (generic_Client ''cluster1'')
   \<and> ClusterClientset example_util (rest_Config ''cluster2'') = Inr (Clientset ''cluster2'')
   \<and> filter hostRecordRequest
        (snd (UnjoinCluster (answering_api (Some Forbidden)) example_util (rest_Config ''cluster1'')
                (Some (rest_Config ''cluster2'')) ''kube-federation-system'' ''cluster1'' ''cluster1''
                ''cluster2'' ''cluster2'' False False [])) = []
   \<and> KubefedCluster_Get (generic_Client ''cluster1'') ''kube-federation-system'' ''cluster2''
        \<in> set (snd (UnjoinCluster fake_api example_util (rest_Config ''cluster1'')
                (Some (rest_Config ''cluster2'')) ''kube-federation-system'' ''cluster1'' ''cluster1''
                ''cluster2'' ''cluster2'' False False []))"
proof -
  have host: "HostClientset example_util (rest_Config ''cluster1'') = Inr (Clientset ''cluster1'')"
    and client: "genericclient_New example_util (rest_Config ''cluster1'') = Inr (generic_Client ''cluster1'')"
    and member: "ClusterClientset example_util (rest_Config ''cluster2'') = Inr (Clientset ''cluster2'')"
    by (simp_all add: example_util_def)
  have refused: "\<not> fst (deleteRBACResources (answering_api (Some Forbidden)) example_util
      (Clientset ''cluster2'') ''kube-federation-system'' ''cluster2'' ''cluster1'' False [])"
    by code_simp
  have removed: "fst (deleteRBACResources fake_api example_util
      (Clientset ''cluster2'') ''kube-federation-system'' ''cluster2'' ''cluster1'' False [])"
    "fst (deleteFedNSFromUnjoinCluster fake_api example_util (Clientset ''cluster1'') (Clientset ''cluster2'')
       ''kube-federation-system'' ''cluster2'' False
       (snd (deleteRBACResources fake_api example_util
          (Clientset ''cluster2'') ''kube-federation-system'' ''cluster2'' ''cluster1'' False []))) = None"
    by code_simp+
  note decided = UnjoinCluster_deregisters_iff [OF host client, THEN conjunct1, rule_format,
      OF conjI, OF _ member]
  from decided [of "Some (rest_Config ''cluster2'')" "answering_api (Some Forbidden)"
      "''kube-federation-system''" "''cluster2''" "''cluster1''" False "[]" "''cluster1''" "''cluster2''" False]
    refused
  have quiet: "filter hostRecordRequest
        (snd (UnjoinCluster (answering_api (Some Forbidden)) example_util (rest_Config ''cluster1'')
                (Some (rest_Config ''cluster2'')) ''kube-federation-system'' ''cluster1'' ''cluster1''
                ''cluster2'' ''cluster2'' False False [])) = []"
    unfolding Let_def split_def list.size drop_0 by blast
  from decided [of "Some (rest_Config ''cluster2'')" fake_api
      "''kube-federation-system''" "''cluster2''" "''cluster1''" False "[]" "''cluster1''" "''cluster2''" False]
    removed
  have sent: "KubefedCluster_Get (generic_Client ''cluster1'') ''kube-federation-system'' ''cluster2''
        \<in> set (snd (UnjoinCluster fake_api example_util (rest_Config ''cluster1'')
                (Some (rest_Config ''cluster2'')) ''kube-federation-system'' ''cluster1'' ''cluster1''
                ''cluster2'' ''cluster2'' False False []))"
    unfolding Let_def split_def list.size drop_0 by blast
  from host client member quiet sent show ?thesis
    by (intro conjI)
qed

text \<open>
  An instance of C10: the member cluster refuses every deletion, \<open>force\<close> is off, and
  the result is no error.
\<close>

theorem UnjoinCluster_returns_nil_witness:
  "HostClientset example_util (rest_Config ''cluster1'') = Inr (Clientset ''cluster1'')
   \<and> genericclient_New example_util (rest_Config ''cluster1'') = Inr (generic_Client ''cluster1'')
   \<and> ClusterClientset example_util (rest_Config ''cluster2'') = Inr (Clientset ''cluster2'')
   \<and> fst (deleteRBACResources (answering_api (Some Forbidden)) example_util
            (Clientset ''cluster2'') ''kube-federation-system'' ''cluster2'' ''cluster1'' False []) = False
   \<and> fst (UnjoinCluster (answering_api (Some Forbidden)) example_util (rest_Config ''cluster1'')
            (Some (rest_Config ''cluster2'')) ''kube-federation-system'' ''cluster1'' ''cluster1''
            ''cluster2'' ''cluster2'' False False []) = None"
proof -
  have host: "HostClientset example_util (rest_Config ''cluster1'') = Inr (Clientset ''cluster1'')"
    and client: "genericclient_New example_util (rest_Config ''cluster1'') = Inr (generic_Client ''cluster1'')"
    and member: "ClusterClientset example_util (rest_Config ''cluster2'') = Inr (Clientset ''cluster2'')"
    by (simp_all add: example_util_def)
  have refused: "fst (deleteRBACResources (answering_api (Some Forbidden)) example_util
      (Clientset ''cluster2'') ''kube-federation-system'' ''cluster2'' ''cluster1'' False []) = False"
    by code_simp
  have "(\<exists>cfg cs. Some (rest_Config ''cluster2'') = Some cfg \<and> ClusterClientset example_util cfg = Inr cs) \<or> False"
    using member by simp
  from UnjoinCluster_returns_nil [OF host client this] host client member refused
  show ?thesis by simp
qed

text \<open>
  An instance of C3: the configuration of the member cluster cannot be loaded.
\<close>

theorem Run_member_client_failure_witness:
  "Run fake_api example_util
      (example_options\<lparr>ClusterName := ''cluster2'', ClusterContext := ''cluster2'', forceDeletion := True\<rparr>)
      (example_config\<lparr>ClusterConfig := (\<lambda>context kubeconfig. Inl Unreachable)\<rparr>) []
    = (None, [KubefedCluster_Get (generic_Client ''cluster1'') ''kube-federation-system'' ''cluster2'',
              Secrets_Delete (Clientset ''cluster1'') ''kube-federation-system'' ''cluster2-secret'',
              KubefedCluster_Delete (generic_Client ''cluster1'') ''kube-federation-system'' ''cluster2''])
   \<and> Run fake_api example_util
      (example_options\<lparr>ClusterName := ''cluster2'', ClusterContext := ''cluster2''\<rparr>)
      (example_config\<lparr>ClusterConfig := (\<lambda>context kubeconfig. Inl Unreachable)\<rparr>) []
    = (Some Unreachable, [])"
proof -
  let ?config = "example_config\<lparr>ClusterConfig := (\<lambda>context kubeconfig. Inl Unreachable)\<rparr>"
  let ?j = "example_options\<lparr>ClusterName := ''cluster2'', ClusterContext := ''cluster2''\<rparr>"
  have forced: "Run fake_api example_util (?j\<lparr>forceDeletion := True\<rparr>) ?config []
    = (None, [KubefedCluster_Get (generic_Client ''cluster1'') ''kube-federation-system'' ''cluster2'',
              Secrets_Delete (Clientset ''cluster1'') ''kube-federation-system'' ''cluster2-secret'',
              KubefedCluster_Delete (generic_Client ''cluster1'') ''kube-federation-system'' ''cluster2''])"
    using Run_member_client_failure [of ?config "?j\<lparr>forceDeletion := True\<rparr>" "rest_Config ''cluster1''"
        example_util "Clientset ''cluster1''" "generic_Client ''cluster1''" Unreachable fake_api "[]"
        "\<lparr>fc_Namespace = ''kube-federation-system'', fc_Name = ''cluster2'',
          fc_SecretRef_Name = ''cluster2-secret''\<rparr>"]
    by (simp add: example_config_def example_options_def example_util_def fake_api_def
          deleteKubefedClusterAndSecret_requests)
  have refused: "Run fake_api example_util ?j ?config [] = (Some Unreachable, [])"
    using Run_member_client_failure [of ?config ?j "rest_Config ''cluster1''"
        example_util "Clientset ''cluster1''" "generic_Client ''cluster1''" Unreachable fake_api "[]"]
    by (simp add: example_config_def example_options_def example_util_def)
  from forced refused show ?thesis by simp
qed

text \<open>
  Claim C5 as stated fails: when the host cluster itself is unjoined, the run without
  dry-run looks the namespace up twice and stops at \<open>IsPrimaryCluster\<close>, and the run with
  dry-run sends nothing, so it never reaches that test.
\<close>

theorem dryRun_skips_primary_check_counterexample:
  "deleteFedNSFromUnjoinCluster fake_api example_util (Clientset ''cluster1'') (Clientset ''cluster1'')
      ''kube-federation-system'' ''cluster1'' True [] = (None, [])
   \<and> deleteFedNSFromUnjoinCluster fake_api example_util (Clientset ''cluster1'') (Clientset ''cluster1'')
      ''kube-federation-system'' ''cluster1'' False []
      = (None, [Namespaces_Get (Clientset ''cluster1'') ''kube-federation-system'',
                Namespaces_Get (Clientset ''cluster1'') ''kube-federation-system''])
   \<and> deleteFedNSFromUnjoinCluster fake_api example_util (Clientset ''cluster1'') (Clientset ''cluster2'')
      ''kube-federation-system'' ''cluster2'' True [] = (None, [])
   \<and> UnjoinCluster fake_api example_util (rest_Config ''cluster1'') (Some (rest_Config ''cluster1''))
      ''kube-federation-system'' ''cluster1'' ''cluster1'' ''cluster1'' ''cluster1'' False True []
      = (None, [])"
  by code_simp

text \<open>
  Claim C4. The namespace of the member cluster is already gone: the lookup on the host
  succeeds, the lookup on the member cluster answers NotFound, and
  \<open>deleteFedNSFromUnjoinCluster\<close> returns that NotFound wrapped as an error instead of
  success. The same function takes NotFound for success where it comes from the
  deletion after the two lookups, as the last equation shows.
\<close>

theorem deleteFedNSFromUnjoinCluster_absent_member_fails:
  "on_Namespaces_Get fake_api [Namespaces_Delete (Clientset ''cluster2'') ''kube-federation-system'']
      (Namespaces_Get (Clientset ''cluster1'') ''kube-federation-system'')
     = Inr \<lparr>ns_Name = ''kube-federation-system'', ns_UID = ''cluster1''\<rparr>
   \<and> on_Namespaces_Get fake_api
      [Namespaces_Delete (Clientset ''cluster2'') ''kube-federation-system'',
       Namespaces_Get (Clientset ''cluster1'') ''kube-federation-system'']
      (Namespaces_Get (Clientset ''cluster2'') ''kube-federation-system'') = Inl NotFound
   \<and> deleteFedNSFromUnjoinCluster fake_api example_util (Clientset ''cluster1'') (Clientset ''cluster2'')
      ''kube-federation-system'' ''cluster2'' False
      [Namespaces_Delete (Clientset ''cluster2'') ''kube-federation-system'']
     = (Some (Wrapf NotFound ''Error retrieving namespace %q from unjoining cluster %q''
                [''kube-federation-system'', ''cluster2'']),
        [Namespaces_Delete (Clientset ''cluster2'') ''kube-federation-system'',
         Namespaces_Get (Clientset ''cluster1'') ''kube-federation-system'',
         Namespaces_Get (Clientset ''cluster2'') ''kube-federation-system''])
   \<and> deleteFedNSFromUnjoinCluster (answering_api (Some NotFound)) example_util
        (Clientset ''cluster1'') (Clientset ''cluster2'') ''kube-federation-system'' ''cluster2'' False []
     = (None,
        [Namespaces_Get (Clientset ''cluster1'') ''kube-federation-system'',
         Namespaces_Get (Clientset ''cluster2'') ''kube-federation-system'',
         Namespaces_Delete (Clientset ''cluster2'') ''kube-federation-system''])"
  by code_simp

section \<open>Validation of the command line\<close>

lemma ContainsAny_colon_slash:
  "ContainsAny s '':/'' = (CHR ''/'' \<in> set s \<or> CHR '':'' \<in> set s)"
  by (auto simp add: ContainsAny_def)

text \<open>
  Claim C8. \<open>Complete\<close> fails exactly when there is no argument, or the host cluster
  name is given and contains a slash or a colon, or it is not given and the host cluster
  context contains one. \<open>Complete\<close> sends no request (it has no access to a server), and
  when it fails the command ends with its error before \<open>Run\<close>: the trace is unchanged.
\<close>

theorem Complete_validation:
  "(fst (Complete j args) \<noteq> None) =
     (args = []
      \<or> (HostClusterName j \<noteq> '''' \<and> (CHR ''/'' \<in> set (HostClusterName j) \<or> CHR '':'' \<in> set (HostClusterName j)))
      \<or> (HostClusterName j = '''' \<and> (CHR ''/'' \<in> set (HostClusterContext j) \<or> CHR '':'' \<in> set (HostClusterContext j))))
   \<and> (fst (Complete j args) \<noteq> None \<longrightarrow>
        NewCmdUnjoin_Run srv u config j args tr = (fst (Complete j args), tr))"
  by (auto simp add: Complete_def SetName_def NewCmdUnjoin_Run_def ContainsAny_colon_slash Let_def
        split: prod.splits option.splits if_splits)

text \<open>
  Instances of C8: no argument; a slash in the context; a colon in the name; a context
  with a slash under a valid name; a valid command line.
\<close>

theorem Complete_validation_witness:
  "fst (Complete example_options []) = Some (New ''NAME is required'')
   \<and> NewCmdUnjoin_Run fake_api example_util example_config example_options [] []
       = (Some (New ''NAME is required''), [])
   \<and> fst (Complete (example_options\<lparr>HostClusterContext := ''admin/cluster1''\<rparr>) [''cluster2'']) \<noteq> None
   \<and> fst (Complete (example_options\<lparr>HostClusterName := ''cluster:1''\<rparr>) [''cluster2'']) \<noteq> None
   \<and> fst (Complete (example_options\<lparr>HostClusterContext := ''admin/cluster1'', HostClusterName := ''cluster1''\<rparr>)
            [''cluster2'']) = None
   \<and> fst (Complete example_options [''cluster2'']) = None"
proof -
  have missing: "fst (Complete example_options []) = Some (New ''NAME is required'')"
    by (simp add: Complete_def SetName_def)
  then have "fst (Complete example_options []) \<noteq> None"
    by simp
  with Complete_validation [of example_options "[]" fake_api example_util example_config "[]"] missing
  have aborted: "NewCmdUnjoin_Run fake_api example_util example_config example_options [] []
       = (Some (New ''NAME is required''), [])"
    by simp
  from Complete_validation [of "example_options\<lparr>HostClusterContext := ''admin/cluster1''\<rparr>" "[''cluster2'']"]
  have slash: "fst (Complete (example_options\<lparr>HostClusterContext := ''admin/cluster1''\<rparr>) [''cluster2'']) \<noteq> None"
    by (simp add: example_options_def)
  from Complete_validation [of "example_options\<lparr>HostClusterName := ''cluster:1''\<rparr>" "[''cluster2'']"]
  have colon: "fst (Complete (example_options\<lparr>HostClusterName := ''cluster:1''\<rparr>) [''cluster2'']) \<noteq> None"
    by (simp add: example_options_def)
  from Complete_validation
    [of "example_options\<lparr>HostClusterContext := ''admin/cluster1'', HostClusterName := ''cluster1''\<rparr>" "[''cluster2'']"]
  have override: "fst (Complete (example_options\<lparr>HostClusterContext := ''admin/cluster1'', HostClusterName := ''cluster1''\<rparr>)
            [''cluster2'']) = None"
    by (simp add: example_options_def)
  from Complete_validation [of example_options "[''cluster2'']"]
  have plain: "fst (Complete example_options [''cluster2'']) = None"
    by (simp add: example_options_def)
  from missing aborted slash colon override plain show ?thesis
    by (intro conjI)
qed

section \<open>Health and zones\<close>

text \<open>
  Claim C6. The conditions \<open>GetClusterHealthStatus\<close> returns, as pairs of type and
  status: Offline True alone after a request error; Ready True alone when the body
  equals \<^verbatim>\<open>ok\<close> up to case; Ready False and Offline False for any other body.
\<close>

theorem GetClusterHealthStatus_classification:
  "(err \<noteq> None \<longrightarrow>
      map (\<lambda>c. (Type c, Status c)) (Conditions (GetClusterHealthStatus EqualFold currentTime (body, err)))
        = [(ClusterOffline, ConditionTrue)])
   \<and> (err = None \<and> EqualFold body ''ok'' \<longrightarrow>
      map (\<lambda>c. (Type c, Status c)) (Conditions (GetClusterHealthStatus EqualFold currentTime (body, err)))
        = [(ClusterReady, ConditionTrue)])
   \<and> (err = None \<and> \<not> EqualFold body ''ok'' \<longrightarrow>
      map (\<lambda>c. (Type c, Status c)) (Conditions (GetClusterHealthStatus EqualFold currentTime (body, err)))
        = [(ClusterReady, ConditionFalse), (ClusterOffline, ConditionFalse)])"
  by (simp add: GetClusterHealthStatus_def)

text \<open>
  Instances of C6 with the bodies \<^verbatim>\<open>OK\<close> and \<^verbatim>\<open>degraded\<close> and an unreachable cluster.
\<close>

theorem GetClusterHealthStatus_classification_witness:
  "map (\<lambda>c. (Type c, Status c)) (Conditions (GetClusterHealthStatus EqualFold_ASCII 0 (''OK'', None)))
     = [(ClusterReady, ConditionTrue)]
   \<and> map (\<lambda>c. (Type c, Status c)) (Conditions (GetClusterHealthStatus EqualFold_ASCII 0 ('''', Some Unreachable)))
     = [(ClusterOffline, ConditionTrue)]
   \<and> map (\<lambda>c. (Type c, Status c)) (Conditions (GetClusterHealthStatus EqualFold_ASCII 0 (''degraded'', None)))
     = [(ClusterReady, ConditionFalse), (ClusterOffline, ConditionFalse)]"
proof -
  have ok: "EqualFold_ASCII ''OK'' ''ok''"
    by code_simp
  have degraded: "\<not> EqualFold_ASCII ''degraded'' ''ok''"
    by code_simp
  from GetClusterHealthStatus_classification [of None EqualFold_ASCII 0 "''OK''"] ok
  have ready: "map (\<lambda>c. (Type c, Status c)) (Conditions (GetClusterHealthStatus EqualFold_ASCII 0 (''OK'', None)))
     = [(ClusterReady, ConditionTrue)]"
    by simp
  from GetClusterHealthStatus_classification [of "Some Unreachable" EqualFold_ASCII 0 "''''"]
  have offline: "map (\<lambda>c. (Type c, Status c))
       (Conditions (GetClusterHealthStatus EqualFold_ASCII 0 ('''', Some Unreachable)))
     = [(ClusterOffline, ConditionTrue)]"
    by simp
  from GetClusterHealthStatus_classification [of None EqualFold_ASCII 0 "''degraded''"] degraded
  have unready: "map (\<lambda>c. (Type c, Status c))
       (Conditions (GetClusterHealthStatus EqualFold_ASCII 0 (''degraded'', None)))
     = [(ClusterReady, ConditionFalse), (ClusterOffline, ConditionFalse)]"
    by simp
  from ready offline unready show ?thesis
    by (intro conjI)
qed

lemma zonesLoop_result:
  "zonesLoop i items zones region =
     (zones \<union> {z \<in> getZoneNameForNode ` set items. z \<noteq> ''''},
      case items of [] \<Rightarrow> region | node # rest \<Rightarrow> if i = 0 then getRegionNameForNode node else region)"
proof (induction items arbitrary: i zones region)
  case Nil
  then show ?case by simp
next
  case (Cons node items)
  show ?case
    by (auto simp add: Cons.IH Let_def split: list.splits)
qed

text \<open>
  Claim C7. After a successful listing, the zones returned are the non-empty zone
  labels of the nodes, each once (and sorted), and the region is the region label of
  the first node listed, whatever the nodes after it say (the empty string when no
  node is listed). Nodes with zones a, a, b and regions r1, r2, r2 give zones a, b and
  region r1.
\<close>

theorem GetClusterZones_zones_and_region:
  "(case GetClusterZones (Inr items) of
      (zones, region, err) \<Rightarrow>
        err = None
        \<and> set zones = {z \<in> getZoneNameForNode ` set items. z \<noteq> ''''}
        \<and> distinct zones \<and> sorted zones
        \<and> region = (case items of [] \<Rightarrow> '''' | node # rest \<Rightarrow> getRegionNameForNode node))
   \<and> GetClusterZones (Inr [labelled_node ''a'' ''r1'', labelled_node ''a'' ''r2'', labelled_node ''b'' ''r2''])
       = ([''a'', ''b''], ''r1'', None)"
proof
  have "finite {z \<in> getZoneNameForNode ` set items. z \<noteq> ''''}"
    by simp
  then show "case GetClusterZones (Inr items) of
      (zones, region, err) \<Rightarrow>
        err = None
        \<and> set zones = {z \<in> getZoneNameForNode ` set items. z \<noteq> ''''}
        \<and> distinct zones \<and> sorted zones
        \<and> region = (case items of [] \<Rightarrow> '''' | node # rest \<Rightarrow> getRegionNameForNode node)"
    by (simp add: GetClusterZones_def zonesLoop_result split: list.splits)
next
  show "GetClusterZones (Inr [labelled_node ''a'' ''r1'', labelled_node ''a'' ''r2'', labelled_node ''b'' ''r2''])
       = ([''a'', ''b''], ''r1'', None)"
    by (simp add: GetClusterZones_def labelled_node_def getZoneNameForNode_def getRegionNameForNode_def
          LabelZoneFailureDomain_def LabelZoneRegion_def)
qed

text \<open>
  An instance of C7 with a node that has an empty zone label.
\<close>

theorem GetClusterZones_zones_and_region_witness:
  "GetClusterZones (Inr [labelled_node ''b'' ''r2'', labelled_node '''' ''r1'', labelled_node ''a'' ''r1''])
     = ([''a'', ''b''], ''r2'', None)"
proof -
  let ?items = "[labelled_node ''b'' ''r2'', labelled_node '''' ''r1'', labelled_node ''a'' ''r1'']"
  obtain zones region err where result: "GetClusterZones (Inr ?items) = (zones, region, err)"
    by (cases "GetClusterZones (Inr ?items)")
  from GetClusterZones_zones_and_region [of ?items, THEN conjunct1] result
  have err: "err = None" and region: "region = ''r2''"
    and members: "set zones = {''a'', ''b''}" and order: "distinct zones" "sorted zones"
    by (auto simp add: labelled_node_def getZoneNameForNode_def getRegionNameForNode_def
          LabelZoneFailureDomain_def LabelZoneRegion_def)
  from members order have "zones = sorted_list_of_set {''a'', ''b''}"
    by (metis sorted_list_of_set.idem_if_sorted_distinct)
  then have "zones = [''a'', ''b'']"
    by simp
  with result err region show ?thesis
    by simp
qed

end
